theory Spec2Isabelle
  imports Main "HOL-Library.Word"
begin

section \<open>Values exchanged with the client library\<close>

text \<open>
  The wrapper in \<^verbatim>\<open>rocketmq.go\<close> delegates to the RocketMQ client library. The library's
  objects are opaque here: a producer or a push consumer is known by its identity only, and
  a Go interface value of type \<^verbatim>\<open>rocketmq.Producer\<close> or \<^verbatim>\<open>rocketmq.PushConsumer\<close> is a
  \<open>handle option\<close>, \<open>None\<close> being the nil interface and \<open>Some h\<close> any non-nil value.
  A Go \<^verbatim>\<open>error\<close> is an \<open>err option\<close>, \<open>None\<close> being nil. Calling a method on a nil
  interface panics.
\<close>

type_synonym handle = nat

datatype err = Err string

datatype panic = NilDereference

text \<open>\<^verbatim>\<open>primitive.Credentials\<close>, with the two fields the wrapper fills in.\<close>

record Credentials =
  AccessKey :: string
  SecretKey :: string

text \<open>
  Enumerations declared by the client library. The wrapper names \<^verbatim>\<open>consumer.Clustering\<close>,
  \<^verbatim>\<open>primitive.Cloud\<close>, \<^verbatim>\<open>consumer.TAG\<close>, \<^verbatim>\<open>consumer.ConsumeSuccess\<close> and
  \<^verbatim>\<open>consumer.ConsumeRetryLater\<close>; the other constructors stand for the library's remaining
  values, which the wrapper never produces.
\<close>

datatype MessageModel = BroadCasting | Clustering

datatype AccessChannel = Local | Cloud

datatype ExpressionType = SQL92 | TAG

datatype ConsumeResult = ConsumeSuccess | ConsumeRetryLater | Commit | Rollback | SuspendCurrentQueueAMoment

record MessageSelector =
  Type :: ExpressionType
  Expression :: string

record TraceConfig =
  GroupName :: string
  Access :: AccessChannel
  NamesrvAddrs :: "string list"
  Credentials :: Credentials

text \<open>
  The functional options handed to \<^verbatim>\<open>rocketmq.NewPushConsumer\<close> and
  \<^verbatim>\<open>rocketmq.NewProducer\<close>. \<^verbatim>\<open>consumer.ConsumeFromWhere\<close> is a Go \<^verbatim>\<open>int\<close>; the
  conversion from the wrapper's \<^verbatim>\<open>ConsumeFrom\<close> keeps the number.
\<close>

datatype consumer_option =
    consumer_WithNameServer "string list"
  | consumer_WithNamespace string
  | consumer_WithInstance string
  | consumer_WithGroupName string
  | consumer_WithCredentials Credentials
  | consumer_WithConsumerModel MessageModel
  | consumer_WithConsumeFromWhere int
  | consumer_WithConsumerOrder bool

datatype producer_option =
    producer_WithNameServer "string list"
  | producer_WithNamespace string
  | producer_WithInstanceName string
  | producer_WithGroupName string
  | producer_WithCredentials Credentials
  | producer_WithTrace TraceConfig

text \<open>
  A delivered message, \<^verbatim>\<open>*primitive.MessageExt\<close>, as far as the handler reads it: the
  fields \<^verbatim>\<open>MsgId\<close>, \<^verbatim>\<open>Topic\<close>, \<^verbatim>\<open>QueueOffset\<close> (int64), \<^verbatim>\<open>ReconsumeTimes\<close> (int32) and
  the values of the getters \<^verbatim>\<open>GetTags\<close>, \<^verbatim>\<open>GetKeys\<close>, \<^verbatim>\<open>GetProperties\<close>, \<^verbatim>\<open>GetRegionID\<close>.
  The library delivers non-nil message pointers, so a message is the record itself.
\<close>

record MessageExt =
  MsgId :: string
  Topic :: string
  QueueOffset :: "64 word"
  ReconsumeTimes :: "32 word"
  Tags :: string
  Keys :: string
  Properties :: "(string \<times> string) list"
  RegionID :: string


section \<open>Observable effects\<close>

text \<open>
  Structured log entries and calls into the library are recorded, in order, as events.
  \<open>CallOnMessage\<close> is an invocation of the caller-supplied processing function.
\<close>

datatype log_value =
    LString string
  | LInt int
  | LError err
  | LProps "(string \<times> string) list"
  | LMap "(string \<times> log_value) list"

datatype event =
    Infow string "(string \<times> log_value) list"
  | Debugw string "(string \<times> log_value) list"
  | Warnw string "(string \<times> log_value) list"
  | CallNewPushConsumer "consumer_option list"
  | CallNewProducer "producer_option list"
  | CallSubscribe handle string MessageSelector
  | CallConsumerStart handle
  | CallProducerStart handle
  | CallOnMessage MessageExt

text \<open>
  The processing function \<^verbatim>\<open>onMessage\<close> is a Go closure: it may keep state of its own,
  of type \<open>'u\<close>. The handler registered with the library maps a batch to a consume result
  and an error, with the events of that delivery.
\<close>

type_synonym 'u onMessage_fn = "MessageExt \<Rightarrow> 'u \<Rightarrow> err option \<times> 'u"

type_synonym 'u handler_fn =
  "MessageExt list \<Rightarrow> 'u \<Rightarrow> (ConsumeResult \<times> err option) \<times> 'u \<times> event list"

text \<open>
  The library is a parameter: each of its entry points is a function of the library's own
  state \<open>'s\<close>, returning what the Go call returns and the next state.
\<close>

record ('s, 'u) library =
  rocketmq_NewPushConsumer :: "consumer_option list \<Rightarrow> 's \<Rightarrow> (handle option \<times> err option) \<times> 's"
  rocketmq_NewProducer :: "producer_option list \<Rightarrow> 's \<Rightarrow> (handle option \<times> err option) \<times> 's"
  PushConsumer_Subscribe :: "handle \<Rightarrow> string \<Rightarrow> MessageSelector \<Rightarrow> 'u handler_fn \<Rightarrow> 's \<Rightarrow> err option \<times> 's"
  PushConsumer_Start :: "handle \<Rightarrow> 's \<Rightarrow> err option \<times> 's"
  Producer_Start :: "handle \<Rightarrow> 's \<Rightarrow> err option \<times> 's"


section \<open>The wrapper\<close>

record RocketHelperOptions =
  Endpoint :: string
  InstanceId :: string
  GroupId :: string
  ConsumeFrom :: int
  AccessKeyId :: string
  AccessKeySecret :: string

definition GetCredentials :: "RocketHelperOptions \<Rightarrow> Credentials" where
  "GetCredentials opts = \<lparr>AccessKey = AccessKeyId opts, SecretKey = AccessKeySecret opts\<rparr>"

text \<open>
  A helper holds a pointer to its options; the pointer is taken to be non-nil, so the
  helper holds the options themselves.
\<close>

record RocketHelper =
  opts :: RocketHelperOptions

definition NewRocketHelper :: "RocketHelperOptions \<Rightarrow> RocketHelper" where
  "NewRocketHelper opts0 = \<lparr>opts = opts0\<rparr>"

text \<open>
  The package-level variables \<^verbatim>\<open>pushConsumer\<close> and \<^verbatim>\<open>p\<close> (here \<open>p_global\<close>) are part of
  the process state, together with the library's state and the events so far. They are not
  fields of \<open>RocketHelper\<close>.
\<close>

record 's world =
  pushConsumer :: "handle option"
  p_global :: "handle option"
  lib_state :: 's
  trace :: "event list"

definition CreatePushConsumer ::
  "('s, 'u) library \<Rightarrow> RocketHelper \<Rightarrow> 's world \<Rightarrow> (handle option \<times> err option) \<times> 's world" where
  "CreatePushConsumer L rh w =
    (let opts = opts rh;
         w1 = w\<lparr>trace := trace w @
                [Infow ''create-rocketmq-push-consumer''
                   [(''options'', LMap [(''endpoint'', LString (Endpoint opts)),
                                        (''instanceId'', LString (InstanceId opts)),
                                        (''groupId'', LString (GroupId opts))])]]\<rparr>;
         options = [consumer_WithNameServer [Endpoint opts],
                    consumer_WithNamespace (InstanceId opts),
                    consumer_WithInstance (InstanceId opts),
                    consumer_WithGroupName (GroupId opts),
                    consumer_WithCredentials (GetCredentials opts),
                    consumer_WithConsumerModel Clustering,
                    consumer_WithConsumeFromWhere (ConsumeFrom opts),
                    consumer_WithConsumerOrder True];
         (r, s1) = rocketmq_NewPushConsumer L options (lib_state w1)
     in (r, w1\<lparr>lib_state := s1, trace := trace w1 @ [CallNewPushConsumer options]\<rparr>))"

definition getPushConsumer ::
  "('s, 'u) library \<Rightarrow> RocketHelper \<Rightarrow> 's world \<Rightarrow> (handle option \<times> err option) \<times> 's world" where
  "getPushConsumer L rh w =
    (if pushConsumer w = None then
       (let ((c, e), w1) = CreatePushConsumer L rh w;
            w2 = w1\<lparr>pushConsumer := c\<rparr>
        in case e of
             Some x \<Rightarrow> ((None, Some x), w2)
           | None \<Rightarrow> ((pushConsumer w2, None), w2))
     else ((pushConsumer w, None), w))"

text \<open>
  The closure handed to \<^verbatim>\<open>Subscribe\<close>: the loop over the batch. It does not use its
  \<^verbatim>\<open>ctx\<close> argument.
\<close>

definition summary :: "MessageExt \<Rightarrow> (string \<times> log_value) list" where
  "summary msg =
    [(''summary'', LMap [(''messageId'', LString (MsgId msg)),
                         (''topic'', LString (Topic msg)),
                         (''queueOffset'', LInt (sint (QueueOffset msg))),
                         (''tags'', LString (Tags msg)),
                         (''keys'', LString (Keys msg)),
                         (''properties'', LProps (Properties msg)),
                         (''regionId'', LString (RegionID msg)),
                         (''reconsumeTimes'', LInt (sint (ReconsumeTimes msg)))])]"

primrec message_handler :: "'u onMessage_fn \<Rightarrow> 'u handler_fn" where
  "message_handler onMessage [] u = ((ConsumeSuccess, None), u, [])"
| "message_handler onMessage (msg # messages) u =
    (case onMessage msg u of
       (Some e, u1) \<Rightarrow>
         ((ConsumeRetryLater, Some e), u1,
          [Debugw ''received-rocketmq-message'' (summary msg), CallOnMessage msg,
           Warnw ''process-message-failed'' [(''error'', LError e)]])
     | (None, u1) \<Rightarrow>
         (case message_handler onMessage messages u1 of
            (r, u2, es) \<Rightarrow>
              (r, u2, Debugw ''received-rocketmq-message'' (summary msg) # CallOnMessage msg # es)))"

definition PushConsumeByConsumer ::
  "('s, 'u) library \<Rightarrow> RocketHelper \<Rightarrow> handle option \<Rightarrow> string \<Rightarrow> MessageSelector \<Rightarrow>
   'u onMessage_fn \<Rightarrow> 's world \<Rightarrow> (panic + err option) \<times> 's world" where
  "PushConsumeByConsumer L rh c topic selector onMessage w =
    (let w1 = w\<lparr>trace := trace w @ [Infow ''subscribe-rocketmq'' [(''topic'', LString topic)]]\<rparr>
     in case c of
          None \<Rightarrow> (Inl NilDereference, w1)
        | Some ch \<Rightarrow>
            (let (e, s1) = PushConsumer_Subscribe L ch topic selector (message_handler onMessage)
                             (lib_state w1);
                 w2 = w1\<lparr>lib_state := s1, trace := trace w1 @ [CallSubscribe ch topic selector]\<rparr>
             in case e of
                  Some x \<Rightarrow> (Inr (Some x), w2)
                | None \<Rightarrow>
                    (let (e2, s2) = PushConsumer_Start L ch (lib_state w2)
                     in (Inr e2, w2\<lparr>lib_state := s2, trace := trace w2 @ [CallConsumerStart ch]\<rparr>))))"

definition NewProducer ::
  "('s, 'u) library \<Rightarrow> RocketHelper \<Rightarrow> 's world \<Rightarrow>
   (panic + (handle option \<times> err option)) \<times> 's world" where
  "NewProducer L rh w =
    (let opts = opts rh;
         w1 = w\<lparr>trace := trace w @
                [Infow ''create-rocketmq-producer''
                   [(''endpoint'', LString (Endpoint opts)),
                    (''instanceId'', LString (InstanceId opts)),
                    (''groupId'', LString (GroupId opts))]]\<rparr>;
         credentials = GetCredentials opts;
         options = [producer_WithNameServer [Endpoint opts],
                    producer_WithNamespace (InstanceId opts),
                    producer_WithInstanceName (InstanceId opts),
                    producer_WithGroupName (GroupId opts),
                    producer_WithCredentials credentials,
                    producer_WithTrace \<lparr>GroupName = GroupId opts, Access = Cloud,
                                        NamesrvAddrs = [Endpoint opts],
                                        Credentials = credentials\<rparr>];
         ((p, e), s1) = rocketmq_NewProducer L options (lib_state w1);
         w2 = w1\<lparr>lib_state := s1, trace := trace w1 @ [CallNewProducer options]\<rparr>
     in case e of
          Some x \<Rightarrow> (Inr (None, Some x), w2)
        | None \<Rightarrow>
            (case p of
               None \<Rightarrow> (Inl NilDereference, w2)
             | Some ph \<Rightarrow>
                 (let (e2, s2) = Producer_Start L ph (lib_state w2)
                  in (Inr (Some ph, e2),
                      w2\<lparr>lib_state := s2, trace := trace w2 @ [CallProducerStart ph]\<rparr>))))"

definition getProducer ::
  "('s, 'u) library \<Rightarrow> RocketHelper \<Rightarrow> 's world \<Rightarrow>
   (panic + (handle option \<times> err option)) \<times> 's world" where
  "getProducer L rh w =
    (if p_global w = None then
       (case NewProducer L rh w of
          (Inl pn, w1) \<Rightarrow> (Inl pn, w1)
        | (Inr (p, e), w1) \<Rightarrow>
            (let w2 = w1\<lparr>p_global := p\<rparr>
             in case e of
                  Some x \<Rightarrow> (Inr (None, Some x), w2)
                | None \<Rightarrow> (Inr (p_global w2, None), w2)))
     else (Inr (p_global w, None), w))"



section \<open>Reading the events\<close>

text \<open>
  Each invocation of the factory \<open>NewProducer\<close> calls \<^verbatim>\<open>rocketmq.NewProducer\<close> once, and
  each invocation of \<open>CreatePushConsumer\<close> calls \<^verbatim>\<open>rocketmq.NewPushConsumer\<close> once, so
  the number of these calls in a trace is the number of factory invocations.
\<close>

definition is_CallNewProducer :: "event \<Rightarrow> bool" where
  "is_CallNewProducer ev = (case ev of CallNewProducer os \<Rightarrow> True | _ \<Rightarrow> False)"

definition is_CallNewPushConsumer :: "event \<Rightarrow> bool" where
  "is_CallNewPushConsumer ev = (case ev of CallNewPushConsumer os \<Rightarrow> True | _ \<Rightarrow> False)"

definition is_CallConsumerStart :: "event \<Rightarrow> bool" where
  "is_CallConsumerStart ev = (case ev of CallConsumerStart c \<Rightarrow> True | _ \<Rightarrow> False)"

definition producer_factory_calls :: "event list \<Rightarrow> nat" where
  "producer_factory_calls tr = length (filter is_CallNewProducer tr)"

definition consumer_factory_calls :: "event list \<Rightarrow> nat" where
  "consumer_factory_calls tr = length (filter is_CallNewPushConsumer tr)"

text \<open>The messages the processing function was invoked on, in order.\<close>

definition onMessage_calls :: "event list \<Rightarrow> MessageExt list" where
  "onMessage_calls es = concat (map (\<lambda>ev. case ev of CallOnMessage m \<Rightarrow> [m] | _ \<Rightarrow> []) es)"

text \<open>
  What the processing function reports for each message of a batch when it is applied to
  the messages in order, from the state \<open>u\<close>. ``Message \<open>k\<close> is the first to fail'' and
  ``every message is processed successfully'' are statements about this list.
\<close>

primrec sequential_outcomes :: "'u onMessage_fn \<Rightarrow> MessageExt list \<Rightarrow> 'u \<Rightarrow> err option list" where
  "sequential_outcomes onMessage [] u = []"
| "sequential_outcomes onMessage (msg # messages) u =
    (case onMessage msg u of (r, u1) \<Rightarrow> r # sequential_outcomes onMessage messages u1)"


section \<open>Concrete inputs\<close>

text \<open>
  A library whose state counts the calls made so far. A constructor fails with
  \<open>construct_err\<close> when that is set and otherwise returns a fresh handle, \<^verbatim>\<open>Start\<close> returns
  \<open>start_err\<close> and \<^verbatim>\<open>Subscribe\<close> returns \<open>subscribe_err\<close>.
\<close>

definition test_library :: "err option \<Rightarrow> err option \<Rightarrow> err option \<Rightarrow> (nat, nat) library" where
  "test_library construct_err start_err subscribe_err =
    \<lparr>rocketmq_NewPushConsumer =
       (\<lambda>os s. ((case construct_err of None \<Rightarrow> Some s | Some x \<Rightarrow> None, construct_err), Suc s)),
     rocketmq_NewProducer =
       (\<lambda>os s. ((case construct_err of None \<Rightarrow> Some s | Some x \<Rightarrow> None, construct_err), Suc s)),
     PushConsumer_Subscribe = (\<lambda>c t sel h s. (subscribe_err, Suc s)),
     PushConsumer_Start = (\<lambda>c s. (start_err, Suc s)),
     Producer_Start = (\<lambda>p s. (start_err, Suc s))\<rparr>"

definition helper_a :: RocketHelper where
  "helper_a = NewRocketHelper
     \<lparr>Endpoint = ''http://mq-a.example:80'', InstanceId = ''MQ_INST_a'', GroupId = ''GID_a'',
      ConsumeFrom = 0, AccessKeyId = ''id-a'', AccessKeySecret = ''secret-a''\<rparr>"

definition helper_b :: RocketHelper where
  "helper_b = NewRocketHelper
     \<lparr>Endpoint = ''http://mq-b.example:80'', InstanceId = ''MQ_INST_b'', GroupId = ''GID_b'',
      ConsumeFrom = 1, AccessKeyId = ''id-b'', AccessKeySecret = ''secret-b''\<rparr>"

definition cold_world :: "nat world" where
  "cold_world = \<lparr>pushConsumer = None, p_global = None, lib_state = 0, trace = []\<rparr>"

definition test_message :: "string \<Rightarrow> MessageExt" where
  "test_message i =
    \<lparr>MsgId = i, Topic = ''orders'', QueueOffset = 0, ReconsumeTimes = 0, Tags = ''paid'',
     Keys = ''k1 k2'', Properties = [(''source'', ''shop'')], RegionID = ''eu''\<rparr>"

text \<open>A processing function that counts its invocations and rejects the message ``bad''.\<close>

definition reject_bad :: "nat onMessage_fn" where
  "reject_bad msg u = (if MsgId msg = ''bad'' then Some (Err ''rejected'') else None, Suc u)"


section \<open>The credential pair\<close>

text \<open>
  C5. For every configuration, \<open>GetCredentials\<close> returns the pair whose access key is the
  configuration's access-key id and whose secret key is its access-key secret. It is a
  function of the configuration alone: it reads no other state and changes none.
\<close>

theorem GetCredentials_pair:
  "AccessKey (GetCredentials cfg) = AccessKeyId cfg \<and>
   SecretKey (GetCredentials cfg) = AccessKeySecret cfg \<and>
   GetCredentials cfg = \<lparr>AccessKey = AccessKeyId cfg, SecretKey = AccessKeySecret cfg\<rparr>"
  by (simp add: GetCredentials_def)


section \<open>The message handler\<close>

text \<open>
  C1. Let the message at index \<open>k\<close> of a batch (position \<open>k + 1\<close>) be the first for which
  the processing function reports an error \<open>e\<close>. Then the handler returns
  \<open>ConsumeRetryLater\<close> for the batch together with \<open>e\<close>, and the processing function has
  been invoked on the first \<open>k + 1\<close> messages, in order, and on no later message.
\<close>

theorem handler_first_failure:
  assumes "k < length messages"
    and "sequential_outcomes onMessage messages u ! k = Some e"
    and "\<forall>j<k. sequential_outcomes onMessage messages u ! j = None"
  shows "fst (message_handler onMessage messages u) = (ConsumeRetryLater, Some e) \<and>
         onMessage_calls (snd (snd (message_handler onMessage messages u))) = take (Suc k) messages"
  using assms
proof (induction messages arbitrary: k u)
  case Nil
  then show ?case by simp
next
  case (Cons msg messages)
  obtain r u1 where step: "onMessage msg u = (r, u1)"
    by (cases "onMessage msg u")
  show ?case
  proof (cases k)
    case 0
    with Cons.prems step have "r = Some e" by simp
    with step show ?thesis by (simp add: 0 onMessage_calls_def)
  next
    case (Suc k')
    from Cons.prems(3) Suc have "sequential_outcomes onMessage (msg # messages) u ! 0 = None"
      by blast
    with step have r: "r = None" by simp
    have shorter: "k' < length messages"
      using Cons.prems(1) Suc by simp
    have fails: "sequential_outcomes onMessage messages u1 ! k' = Some e"
      using Cons.prems(2) Suc step by simp
    have before: "\<forall>j<k'. sequential_outcomes onMessage messages u1 ! j = None"
    proof (intro allI impI)
      fix j assume "j < k'"
      then have "Suc j < k" using Suc by simp
      with Cons.prems(3) have "sequential_outcomes onMessage (msg # messages) u ! Suc j = None"
        by blast
      with step show "sequential_outcomes onMessage messages u1 ! j = None" by simp
    qed
    from Cons.IH [OF shorter fails before] step r Suc show ?thesis
      by (auto simp: onMessage_calls_def split: prod.splits)
  qed
qed

theorem handler_first_failure_witness:
  "fst (message_handler reject_bad [test_message ''a'', test_message ''bad'', test_message ''c''] 0)
     = (ConsumeRetryLater, Some (Err ''rejected'')) \<and>
   onMessage_calls (snd (snd (message_handler reject_bad
       [test_message ''a'', test_message ''bad'', test_message ''c''] 0)))
     = [test_message ''a'', test_message ''bad'']"
  using handler_first_failure [of 1 "[test_message ''a'', test_message ''bad'', test_message ''c'']"
          reject_bad 0 "Err ''rejected''"]
  by (simp add: reject_bad_def test_message_def)

text \<open>
  C7. When the processing function reports no error for any message of the batch, the
  handler returns \<open>ConsumeSuccess\<close> with a nil error: one result for the batch, after the
  processing function has been invoked on every message once, in order.
\<close>

theorem handler_all_succeed:
  assumes "\<forall>j<length messages. sequential_outcomes onMessage messages u ! j = None"
  shows "fst (message_handler onMessage messages u) = (ConsumeSuccess, None) \<and>
         onMessage_calls (snd (snd (message_handler onMessage messages u))) = messages"
  using assms
proof (induction messages arbitrary: u)
  case Nil
  then show ?case by (simp add: onMessage_calls_def)
next
  case (Cons msg messages)
  obtain r u1 where step: "onMessage msg u = (r, u1)"
    by (cases "onMessage msg u")
  from Cons.prems have "sequential_outcomes onMessage (msg # messages) u ! 0 = None"
    by auto
  with step have r: "r = None" by simp
  have rest: "\<forall>j<length messages. sequential_outcomes onMessage messages u1 ! j = None"
  proof (intro allI impI)
    fix j assume "j < length messages"
    then have "Suc j < length (msg # messages)" by simp
    with Cons.prems have "sequential_outcomes onMessage (msg # messages) u ! Suc j = None"
      by blast
    with step show "sequential_outcomes onMessage messages u1 ! j = None" by simp
  qed
  from Cons.IH [OF rest] step r show ?case
    by (auto simp: onMessage_calls_def split: prod.splits)
qed

theorem handler_all_succeed_witness:
  "fst (message_handler reject_bad [test_message ''a'', test_message ''b''] 0)
     = (ConsumeSuccess, None) \<and>
   onMessage_calls (snd (snd (message_handler reject_bad [test_message ''a'', test_message ''b''] 0)))
     = [test_message ''a'', test_message ''b'']"
  using handler_all_succeed [of "[test_message ''a'', test_message ''b'']" reject_bad 0]
  by (simp add: reject_bad_def test_message_def less_Suc_eq)


section \<open>Consumer construction and subscription\<close>

text \<open>
  C9. \<open>CreatePushConsumer\<close> returns what \<^verbatim>\<open>rocketmq.NewPushConsumer\<close> returns for one call,
  made with the options below: the configuration's endpoint as the only name server, its
  instance id as namespace and instance, its group id, its credential pair, the clustering
  consumer model, its consume-from position, and ordered consumption switched on. No option
  switches ordered consumption off.
\<close>

theorem CreatePushConsumer_configuration:
  "(let os = [consumer_WithNameServer [Endpoint (opts rh)],
              consumer_WithNamespace (InstanceId (opts rh)),
              consumer_WithInstance (InstanceId (opts rh)),
              consumer_WithGroupName (GroupId (opts rh)),
              consumer_WithCredentials
                \<lparr>AccessKey = AccessKeyId (opts rh), SecretKey = AccessKeySecret (opts rh)\<rparr>,
              consumer_WithConsumerModel Clustering,
              consumer_WithConsumeFromWhere (ConsumeFrom (opts rh)),
              consumer_WithConsumerOrder True]
    in fst (CreatePushConsumer L rh w) = fst (rocketmq_NewPushConsumer L os (lib_state w)) \<and>
       lib_state (snd (CreatePushConsumer L rh w))
         = snd (rocketmq_NewPushConsumer L os (lib_state w)) \<and>
       filter is_CallNewPushConsumer (trace (snd (CreatePushConsumer L rh w)))
         = filter is_CallNewPushConsumer (trace w) @ [CallNewPushConsumer os] \<and>
       consumer_WithConsumerOrder True \<in> set os \<and>
       consumer_WithConsumerOrder False \<notin> set os)"
  by (simp add: CreatePushConsumer_def GetCredentials_def Let_def case_prod_beta
        is_CallNewPushConsumer_def)

text \<open>
  C8. \<open>CreatePushConsumer\<close> adds no \<^verbatim>\<open>Start\<close> call to the trace. \<open>PushConsumeByConsumer\<close>
  on a consumer \<open>ch\<close> calls \<^verbatim>\<open>Subscribe\<close> with the handler \<open>message_handler onMessage\<close>
  first. If that returns an error, the error is the result and the trace ends with the
  \<^verbatim>\<open>Subscribe\<close> call; otherwise \<^verbatim>\<open>Start\<close> is called next, on the library state
  \<^verbatim>\<open>Subscribe\<close> left, and its result is the result.
\<close>

theorem subscribe_then_start:
  "filter is_CallConsumerStart (trace (snd (CreatePushConsumer L rh w)))
     = filter is_CallConsumerStart (trace w) \<and>
   (PushConsumer_Subscribe L ch topic selector (message_handler onMessage) (lib_state w)
      = (Some x, s1)
    \<longrightarrow> PushConsumeByConsumer L rh (Some ch) topic selector onMessage w
          = (Inr (Some x),
             w\<lparr>lib_state := s1,
               trace := trace w @ [Infow ''subscribe-rocketmq'' [(''topic'', LString topic)],
                                   CallSubscribe ch topic selector]\<rparr>)) \<and>
   (PushConsumer_Subscribe L ch topic selector (message_handler onMessage) (lib_state w)
      = (None, s1)
    \<longrightarrow> PushConsumeByConsumer L rh (Some ch) topic selector onMessage w
          = (Inr (fst (PushConsumer_Start L ch s1)),
             w\<lparr>lib_state := snd (PushConsumer_Start L ch s1),
               trace := trace w @ [Infow ''subscribe-rocketmq'' [(''topic'', LString topic)],
                                   CallSubscribe ch topic selector,
                                   CallConsumerStart ch]\<rparr>))"
  by (simp add: CreatePushConsumer_def PushConsumeByConsumer_def Let_def case_prod_beta
        is_CallConsumerStart_def)

theorem subscribe_then_start_witness:
  "PushConsumeByConsumer (test_library None None (Some (Err ''no route''))) helper_a (Some 0)
      ''orders'' \<lparr>Type = TAG, Expression = ''paid''\<rparr> reject_bad cold_world
     = (Inr (Some (Err ''no route'')),
        cold_world\<lparr>lib_state := 1,
          trace := [Infow ''subscribe-rocketmq'' [(''topic'', LString ''orders'')],
                    CallSubscribe 0 ''orders'' \<lparr>Type = TAG, Expression = ''paid''\<rparr>]\<rparr>) \<and>
   PushConsumeByConsumer (test_library None None None) helper_a (Some 0)
      ''orders'' \<lparr>Type = TAG, Expression = ''paid''\<rparr> reject_bad cold_world
     = (Inr None,
        cold_world\<lparr>lib_state := 2,
          trace := [Infow ''subscribe-rocketmq'' [(''topic'', LString ''orders'')],
                    CallSubscribe 0 ''orders'' \<lparr>Type = TAG, Expression = ''paid''\<rparr>,
                    CallConsumerStart 0]\<rparr>)"
  using subscribe_then_start [where L = "test_library None None (Some (Err ''no route''))"
          and rh = helper_a and ch = 0 and topic = "''orders''"
          and selector = "\<lparr>Type = TAG, Expression = ''paid''\<rparr>" and onMessage = reject_bad
          and w = cold_world and x = "Err ''no route''" and ?s1.0 = 1]
        subscribe_then_start [where L = "test_library None None None"
          and rh = helper_a and ch = 0 and topic = "''orders''"
          and selector = "\<lparr>Type = TAG, Expression = ''paid''\<rparr>" and onMessage = reject_bad
          and w = cold_world and ?s1.0 = 1]
  by (simp add: test_library_def cold_world_def)


section \<open>The producer factory\<close>

text \<open>
  C4. \<open>NewProducer\<close> calls \<^verbatim>\<open>rocketmq.NewProducer\<close> once. If that call reports an error,
  the result is a nil producer with that same error, and \<^verbatim>\<open>Start\<close> is not called. If it
  returns a producer \<open>ph\<close> with a nil error, \<^verbatim>\<open>Start\<close> is called once on \<open>ph\<close> and the
  result is \<open>ph\<close> with whatever \<^verbatim>\<open>Start\<close> returned: a nil error for the started producer,
  or the start error as it is.
\<close>

theorem NewProducer_result:
  "(let os = [producer_WithNameServer [Endpoint (opts rh)],
              producer_WithNamespace (InstanceId (opts rh)),
              producer_WithInstanceName (InstanceId (opts rh)),
              producer_WithGroupName (GroupId (opts rh)),
              producer_WithCredentials (GetCredentials (opts rh)),
              producer_WithTrace \<lparr>GroupName = GroupId (opts rh), Access = Cloud,
                                  NamesrvAddrs = [Endpoint (opts rh)],
                                  Credentials = GetCredentials (opts rh)\<rparr>];
        logged = Infow ''create-rocketmq-producer''
                   [(''endpoint'', LString (Endpoint (opts rh))),
                    (''instanceId'', LString (InstanceId (opts rh))),
                    (''groupId'', LString (GroupId (opts rh)))]
    in (rocketmq_NewProducer L os (lib_state w) = ((p, Some x), s1)
        \<longrightarrow> NewProducer L rh w
              = (Inr (None, Some x),
                 w\<lparr>lib_state := s1, trace := trace w @ [logged, CallNewProducer os]\<rparr>)) \<and>
       (rocketmq_NewProducer L os (lib_state w) = ((Some ph, None), s1)
        \<longrightarrow> NewProducer L rh w
              = (Inr (Some ph, fst (Producer_Start L ph s1)),
                 w\<lparr>lib_state := snd (Producer_Start L ph s1),
                   trace := trace w @ [logged, CallNewProducer os, CallProducerStart ph]\<rparr>)))"
  by (simp add: NewProducer_def Let_def case_prod_beta)

theorem NewProducer_result_witness:
  "fst (NewProducer (test_library (Some (Err ''bad endpoint'')) None None) helper_a cold_world)
     = Inr (None, Some (Err ''bad endpoint'')) \<and>
   fst (NewProducer (test_library None (Some (Err ''start failed'')) None) helper_a cold_world)
     = Inr (Some 0, Some (Err ''start failed'')) \<and>
   fst (NewProducer (test_library None None None) helper_a cold_world) = Inr (Some 0, None)"
  using NewProducer_result [where L = "test_library (Some (Err ''bad endpoint'')) None None"
          and rh = helper_a and w = cold_world and x = "Err ''bad endpoint''" and p = None
          and ?s1.0 = 1]
        NewProducer_result [where L = "test_library None (Some (Err ''start failed'')) None"
          and rh = helper_a and w = cold_world and ph = 0 and ?s1.0 = 1]
        NewProducer_result [where L = "test_library None None None"
          and rh = helper_a and w = cold_world and ph = 0 and ?s1.0 = 1]
  by (simp add: test_library_def cold_world_def Let_def)


section \<open>The lazy accessors\<close>

text \<open>Every invocation of a factory adds one constructor call to the trace.\<close>

lemma CreatePushConsumer_factory_calls:
  "consumer_factory_calls (trace (snd (CreatePushConsumer L rh w)))
     = Suc (consumer_factory_calls (trace w))"
  by (simp add: CreatePushConsumer_def consumer_factory_calls_def is_CallNewPushConsumer_def
        Let_def case_prod_beta)

lemma NewProducer_factory_calls:
  "producer_factory_calls (trace (snd (NewProducer L rh w)))
     = Suc (producer_factory_calls (trace w))"
  by (simp add: NewProducer_def producer_factory_calls_def is_CallNewProducer_def
        Let_def case_prod_beta split: option.splits)

text \<open>With a populated cache an accessor returns the cached instance and does nothing else.\<close>

lemma getPushConsumer_cached:
  "pushConsumer w = Some c \<Longrightarrow> getPushConsumer L rh w = ((Some c, None), w)"
  by (simp add: getPushConsumer_def)

lemma getProducer_cached:
  "p_global w = Some h \<Longrightarrow> getProducer L rh w = (Inr (Some h, None), w)"
  by (simp add: getProducer_def)

text \<open>An accessor that returns an instance leaves it in the cache, after at most one
  invocation of the factory.\<close>

lemma getPushConsumer_success:
  assumes "getPushConsumer L rh w = ((Some c, None), w')"
  shows "pushConsumer w' = Some c \<and>
         consumer_factory_calls (trace w') \<le> Suc (consumer_factory_calls (trace w))"
proof (cases "pushConsumer w")
  case None
  obtain c1 e1 w1 where created: "CreatePushConsumer L rh w = ((c1, e1), w1)"
    by (metis surj_pair)
  from assms None created
  have "e1 = None" and "c1 = Some c" and "w' = w1\<lparr>pushConsumer := c1\<rparr>"
    by (auto simp: getPushConsumer_def Let_def split: option.splits)
  moreover have "consumer_factory_calls (trace w1) = Suc (consumer_factory_calls (trace w))"
    using CreatePushConsumer_factory_calls [of L rh w] created by simp
  ultimately show ?thesis by simp
next
  case (Some c0)
  with assms show ?thesis by (simp add: getPushConsumer_def)
qed

lemma getProducer_success:
  assumes "getProducer L rh w = (Inr (Some h, None), w')"
  shows "p_global w' = Some h \<and>
         producer_factory_calls (trace w') \<le> Suc (producer_factory_calls (trace w))"
proof (cases "p_global w")
  case None
  obtain r w1 where made: "NewProducer L rh w = (r, w1)"
    by (metis surj_pair)
  from assms None made obtain p1 e1 where r: "r = Inr (p1, e1)"
    by (cases r) (auto simp: getProducer_def)
  from assms None made r
  have "e1 = None" and "p1 = Some h" and "w' = w1\<lparr>p_global := p1\<rparr>"
    by (auto simp: getProducer_def Let_def split: option.splits)
  moreover have "producer_factory_calls (trace w1) = Suc (producer_factory_calls (trace w))"
    using NewProducer_factory_calls [of L rh w] made by simp
  ultimately show ?thesis by simp
next
  case (Some h0)
  with assms show ?thesis by (simp add: getProducer_def)
qed

text \<open>
  C3. If a call of \<open>getProducer\<close> returns a producer \<open>h\<close> with a nil error, the next call,
  made in the world the first one left, returns \<open>h\<close> again and changes nothing; in
  particular it invokes no factory, and the two calls together have invoked the producer
  factory at most once. The same holds for \<open>getPushConsumer\<close> and the consumer factory.
\<close>

theorem lazy_accessor_twice:
  "(getProducer L rh w = (Inr (Some h, None), w') \<longrightarrow>
      getProducer L rh w' = (Inr (Some h, None), w') \<and>
      producer_factory_calls (trace w') \<le> Suc (producer_factory_calls (trace w))) \<and>
   (getPushConsumer L rh w = ((Some c, None), w'') \<longrightarrow>
      getPushConsumer L rh w'' = ((Some c, None), w'') \<and>
      consumer_factory_calls (trace w'') \<le> Suc (consumer_factory_calls (trace w)))"
  using getProducer_success [of L rh w h w'] getPushConsumer_success [of L rh w c w'']
        getProducer_cached [of w' h L rh] getPushConsumer_cached [of w'' c L rh]
  by blast

theorem lazy_accessor_twice_witness:
  "fst (getProducer (test_library None None None) helper_a cold_world) = Inr (Some 0, None) \<and>
   getProducer (test_library None None None) helper_a
       (snd (getProducer (test_library None None None) helper_a cold_world))
     = (Inr (Some 0, None), snd (getProducer (test_library None None None) helper_a cold_world)) \<and>
   producer_factory_calls
       (trace (snd (getProducer (test_library None None None) helper_a cold_world))) = 1 \<and>
   fst (getPushConsumer (test_library None None None) helper_a cold_world) = (Some 0, None) \<and>
   getPushConsumer (test_library None None None) helper_a
       (snd (getPushConsumer (test_library None None None) helper_a cold_world))
     = ((Some 0, None), snd (getPushConsumer (test_library None None None) helper_a cold_world)) \<and>
   consumer_factory_calls
       (trace (snd (getPushConsumer (test_library None None None) helper_a cold_world))) = 1"
  using lazy_accessor_twice [where L = "test_library None None None" and rh = helper_a
          and w = cold_world and h = 0 and c = 0
          and w' = "snd (getProducer (test_library None None None) helper_a cold_world)"
          and w'' = "snd (getPushConsumer (test_library None None None) helper_a cold_world)"]
  by (simp add: getProducer_def NewProducer_def getPushConsumer_def CreatePushConsumer_def
        test_library_def cold_world_def Let_def producer_factory_calls_def
        consumer_factory_calls_def is_CallNewProducer_def is_CallNewPushConsumer_def)

text \<open>
  C10. The caches belong to the process, not to a helper. Once a call of \<open>getProducer\<close> on
  a helper \<open>rh1\<close> has left a producer \<open>h\<close> in the cache, \<open>getProducer\<close> on any helper
  \<open>rh2\<close> returns \<open>h\<close> and leaves the world as it is: the result does not depend on \<open>rh2\<close>,
  no factory runs and the options of \<open>rh2\<close> are not read. The same holds for
  \<open>getPushConsumer\<close>.
\<close>

theorem caches_shared_between_helpers:
  "(p_global (snd (getProducer L rh1 w)) = Some h \<longrightarrow>
      getProducer L rh2 (snd (getProducer L rh1 w))
        = (Inr (Some h, None), snd (getProducer L rh1 w))) \<and>
   (pushConsumer (snd (getPushConsumer L rh1 w)) = Some c \<longrightarrow>
      getPushConsumer L rh2 (snd (getPushConsumer L rh1 w))
        = ((Some c, None), snd (getPushConsumer L rh1 w)))"
  using getProducer_cached [of "snd (getProducer L rh1 w)" h L rh2]
        getPushConsumer_cached [of "snd (getPushConsumer L rh1 w)" c L rh2]
  by blast

theorem caches_shared_between_helpers_witness:
  "opts helper_a \<noteq> opts helper_b \<and>
   p_global (snd (getProducer (test_library None None None) helper_a cold_world)) = Some 0 \<and>
   getProducer (test_library None None None) helper_b
       (snd (getProducer (test_library None None None) helper_a cold_world))
     = (Inr (Some 0, None), snd (getProducer (test_library None None None) helper_a cold_world)) \<and>
   pushConsumer (snd (getPushConsumer (test_library None None None) helper_a cold_world)) = Some 0 \<and>
   getPushConsumer (test_library None None None) helper_b
       (snd (getPushConsumer (test_library None None None) helper_a cold_world))
     = ((Some 0, None), snd (getPushConsumer (test_library None None None) helper_a cold_world))"
  using caches_shared_between_helpers [where L = "test_library None None None"
          and ?rh1.0 = helper_a and ?rh2.0 = helper_b and w = cold_world and h = 0 and c = 0]
  by (simp add: getProducer_def NewProducer_def getPushConsumer_def CreatePushConsumer_def
        test_library_def cold_world_def helper_a_def helper_b_def NewRocketHelper_def Let_def)

text \<open>
  When \<^verbatim>\<open>rocketmq.NewProducer\<close> itself reports an error, \<open>getProducer\<close> returns that error
  and the cache stays empty, so the next call runs the factory again.
\<close>

lemma getProducer_construction_error:
  "p_global w = None \<Longrightarrow>
   snd (fst (rocketmq_NewProducer L
     [producer_WithNameServer [Endpoint (opts rh)],
      producer_WithNamespace (InstanceId (opts rh)),
      producer_WithInstanceName (InstanceId (opts rh)),
      producer_WithGroupName (GroupId (opts rh)),
      producer_WithCredentials (GetCredentials (opts rh)),
      producer_WithTrace \<lparr>GroupName = GroupId (opts rh), Access = Cloud,
                          NamesrvAddrs = [Endpoint (opts rh)],
                          Credentials = GetCredentials (opts rh)\<rparr>] (lib_state w))) = Some x \<Longrightarrow>
   fst (getProducer L rh w) = Inr (None, Some x) \<and>
   p_global (snd (getProducer L rh w)) = None"
  by (simp add: getProducer_def NewProducer_def Let_def case_prod_beta)

text \<open>
  C2. The claim fails when construction succeeds and \<^verbatim>\<open>Start\<close> fails. With a library whose
  \<^verbatim>\<open>rocketmq.NewProducer\<close> returns producer \<open>0\<close> and whose \<^verbatim>\<open>Start\<close> returns an error, the
  first \<open>getProducer\<close> on an empty cache returns that error but leaves producer \<open>0\<close> in
  the cache; the second call returns producer \<open>0\<close> with a nil error, and the factory has run
  once over the two calls.
\<close>

theorem getProducer_caches_unstarted_producer:
  "fst (getProducer (test_library None (Some (Err ''start failed'')) None) helper_a cold_world)
     = Inr (None, Some (Err ''start failed'')) \<and>
   p_global (snd (getProducer (test_library None (Some (Err ''start failed'')) None)
                    helper_a cold_world)) = Some 0 \<and>
   getProducer (test_library None (Some (Err ''start failed'')) None) helper_a
       (snd (getProducer (test_library None (Some (Err ''start failed'')) None)
               helper_a cold_world))
     = (Inr (Some 0, None),
        snd (getProducer (test_library None (Some (Err ''start failed'')) None)
               helper_a cold_world)) \<and>
   producer_factory_calls
       (trace (snd (getProducer (test_library None (Some (Err ''start failed'')) None) helper_a
          (snd (getProducer (test_library None (Some (Err ''start failed'')) None)
                  helper_a cold_world))))) = 1"
  by (simp add: getProducer_def NewProducer_def test_library_def cold_world_def Let_def
        producer_factory_calls_def is_CallNewProducer_def)

end
